theory Spec2Isabelle
  imports Complex_Main
begin

section \<open>Data model: labelled gridded fields\<close>

text \<open>
  The notebook works on xarray objects holding one variable \<open>z\<close> with the dimensions
  \<open>(time, lat, lon)\<close>. A field is modelled by its three coordinate axes and its values in
  time-major order. Time labels are \<open>datetime64[ns]\<close> values, that is integers counting
  nanoseconds since 1970-01-01; latitudes and longitudes are degrees. Array entries are
  exact reals; where numpy would produce a value that is not a finite number (the mean of
  an empty array, a division by zero, the root of a negative number) the model returns
  \<open>None\<close>.
\<close>

type_synonym grid = "real list list"

record field =
  time :: "int list"
  lat :: "real list"
  lon :: "real list"
  vals :: "grid list"

definition wf_field :: "field \<Rightarrow> bool" where
  "wf_field f \<longleftrightarrow>
     distinct (time f) \<and> distinct (lat f) \<and> distinct (lon f) \<and>
     length (vals f) = length (time f) \<and>
     (\<forall>g \<in> set (vals f). length g = length (lat f) \<and>
        (\<forall>r \<in> set g. length r = length (lon f)))"

subsection \<open>Calendar accessors of the time index\<close>

text \<open>
  \<open>time.dt.year\<close> and \<open>time.dt.dayofyear\<close> of a \<open>datetime64[ns]\<close> label, in the
  proleptic Gregorian calendar. \<open>days_before_year y\<close> is the number of the day
  \<open>y\<close>-01-01 counted from 1970-01-01: 365 days per year and one more for every leap
  year before \<open>y\<close>. The year of a day is found from the mean length of a year,
  146097 days in 400 years, and moved by one where the estimate is off.
\<close>

definition ns_per_day :: int where
  "ns_per_day = 86400 * 1000000000"

definition day_number :: "int \<Rightarrow> int" where
  "day_number t = t div ns_per_day"

definition days_before_year :: "int \<Rightarrow> int" where
  "days_before_year y =
     365 * (y - 1970) + ((y - 1) div 4 - (y - 1) div 100 + (y - 1) div 400) - 477"

definition year_of_day :: "int \<Rightarrow> int" where
  "year_of_day z =
     (let y = 1970 + (400 * z) div 146097
      in if z < days_before_year y then y - 1
         else if days_before_year (y + 1) \<le> z then y + 1
         else y)"

definition year :: "int \<Rightarrow> int" where
  "year t = year_of_day (day_number t)"

definition dayofyear :: "int \<Rightarrow> int" where
  "dayofyear t = day_number t - days_before_year (year t) + 1"

subsection \<open>Selection along the time axis\<close>

text \<open>
  \<open>ds.sel(time=slice('1979', '2015'))\<close> keeps the entries whose label lies in the years
  1979 to 2015, both included; \<open>ds.isel(time=slice(a, b))\<close> selects by position.
\<close>

definition sel_time :: "(int \<Rightarrow> bool) \<Rightarrow> field \<Rightarrow> field" where
  "sel_time P f =
     f\<lparr>time := filter P (time f),
       vals := map snd (filter (\<lambda>p. P (fst p)) (zip (time f) (vals f)))\<rparr>"

definition in_years :: "int \<times> int \<Rightarrow> int \<Rightarrow> bool" where
  "in_years ys t \<longleftrightarrow> fst ys \<le> year t \<and> year t \<le> snd ys"

definition train_years :: "int \<times> int" where "train_years = (1979, 2015)"

definition valid_years :: "int \<times> int" where "valid_years = (2016, 2016)"

definition test_years :: "int \<times> int" where "test_years = (2017, 2018)"

text \<open>\<open>isel(time=slice(None, -k))\<close>: the stop \<open>-k\<close> counts from the end, and \<open>-0\<close> is \<open>0\<close>.\<close>

definition slice_until_neg :: "nat \<Rightarrow> 'a list \<Rightarrow> 'a list" where
  "slice_until_neg k xs = take (if k = 0 then 0 else length xs - k) xs"

definition isel_until_neg :: "nat \<Rightarrow> field \<Rightarrow> field" where
  "isel_until_neg k f =
     f\<lparr>time := slice_until_neg k (time f), vals := slice_until_neg k (vals f)\<rparr>"

text \<open>\<open>isel(time=slice(k, None))\<close>.\<close>

definition isel_from :: "nat \<Rightarrow> field \<Rightarrow> field" where
  "isel_from k f = f\<lparr>time := drop k (time f), vals := drop k (vals f)\<rparr>"

section \<open>The error metric\<close>

subsection \<open>numpy reductions\<close>

definition np_mean :: "real list \<Rightarrow> real option" where
  "np_mean xs = (if xs = [] then None else Some (sum_list xs / real (length xs)))"

definition np_sqrt :: "real \<Rightarrow> real option" where
  "np_sqrt x = (if x < 0 then None else Some (sqrt x))"

definition deg2rad :: "real \<Rightarrow> real" where
  "deg2rad x = x * (pi / 180)"

subsection \<open>Arithmetic of two labelled arrays\<close>

text \<open>
  xarray aligns the operands of \<open>fc - gt\<close> before subtracting: along every dimension it
  keeps the labels present in both operands (an inner join), re-indexes each operand to
  these labels, and subtracts position by position.
\<close>

definition reindex :: "'k list \<Rightarrow> 'k list \<Rightarrow> 'a list \<Rightarrow> 'a list" where
  "reindex new old xs = map (\<lambda>k. the (map_of (zip old xs) k)) new"

definition common :: "'k list \<Rightarrow> 'k list \<Rightarrow> 'k list" where
  "common xs ys = filter (\<lambda>x. x \<in> set ys) xs"

definition reindex_field :: "int list \<Rightarrow> real list \<Rightarrow> real list \<Rightarrow> field \<Rightarrow> field" where
  "reindex_field ts las los f =
     \<lparr>time = ts, lat = las, lon = los,
      vals = map (\<lambda>g. map (\<lambda>r. reindex los (lon f) r) (reindex las (lat f) g))
                 (reindex ts (time f) (vals f))\<rparr>"

definition align :: "field \<Rightarrow> field \<Rightarrow> field \<times> field" where
  "align a b =
     (let ts = common (time a) (time b);
          las = common (lat a) (lat b);
          los = common (lon a) (lon b)
      in (reindex_field ts las los a, reindex_field ts las los b))"

definition sub_fields :: "field \<Rightarrow> field \<Rightarrow> field" where
  "sub_fields a b =
     (let (a', b') = align a b
      in a'\<lparr>vals := map2 (map2 (map2 (\<lambda>x y. x - y))) (vals a') (vals b')\<rparr>)"

subsection \<open>\<open>computed_weighted_rmse\<close>\<close>

text \<open>
  \<open>weights_lat = np.cos(np.deg2rad(error.lat)); weights_lat /= weights_lat.mean()\<close>.
  The division raises nothing: on an empty axis it leaves the empty array, and when the
  mean is zero every quotient is infinite or undefined, which is the result \<open>None\<close>.
\<close>

definition weights_lat :: "real list \<Rightarrow> real list option" where
  "weights_lat lats =
     (let w = map (\<lambda>x. cos (deg2rad x)) lats
      in case np_mean w of
           None \<Rightarrow> Some []
         | Some m \<Rightarrow> if m = 0 then None else Some (map (\<lambda>x. x / m) w))"

text \<open>
  \<open>error ** 2 * weights_lat\<close>: the weight of a latitude row is broadcast along time
  and longitude; the mean over \<open>('time', 'lat', 'lon')\<close> is the mean of all cells.
\<close>

definition weighted_sq :: "real list \<Rightarrow> grid list \<Rightarrow> real list" where
  "weighted_sq w vs =
     concat (map (\<lambda>g. concat (map2 (\<lambda>r wl. map (\<lambda>e. e ^ 2 * wl) r) g w)) vs)"

definition computed_weighted_rmse :: "field \<Rightarrow> field \<Rightarrow> real option" where
  "computed_weighted_rmse fc gt =
     (let error = sub_fields fc gt
      in case weights_lat (lat error) of
           None \<Rightarrow> None
         | Some w \<Rightarrow>
             (case np_mean (weighted_sq w (vals error)) of
                None \<Rightarrow> None
              | Some m \<Rightarrow> np_sqrt m))"

subsection \<open>The cosine as numpy computes it\<close>

text \<open>
  \<open>weights_lat\<close> and \<open>computed_weighted_rmse\<close> above use the exact cosine, which is 0 at
  the poles. \<open>np.cos(np.deg2rad(x))\<close> is computed in double precision, where the
  latitude 90 is sent to the double next to a quarter turn, just below it, and the result
  is 6.123233995736766e-17 and not 0. Where a statement depends on the value at the pole,
  the same two functions are taken with the computed cosine of a latitude in degrees as a
  parameter \<open>cosd\<close>; at \<open>cosd = (\<lambda>x. cos (deg2rad x))\<close> they are the functions above.
\<close>

definition weights_lat_by :: "(real \<Rightarrow> real) \<Rightarrow> real list \<Rightarrow> real list option" where
  "weights_lat_by cosd lats =
     (let w = map cosd lats
      in case np_mean w of
           None \<Rightarrow> Some []
         | Some m \<Rightarrow> if m = 0 then None else Some (map (\<lambda>x. x / m) w))"

definition computed_weighted_rmse_by :: "(real \<Rightarrow> real) \<Rightarrow> field \<Rightarrow> field \<Rightarrow> real option" where
  "computed_weighted_rmse_by cosd fc gt =
     (let error = sub_fields fc gt
      in case weights_lat_by cosd (lat error) of
           None \<Rightarrow> None
         | Some w \<Rightarrow>
             (case np_mean (weighted_sq w (vals error)) of
                None \<Rightarrow> None
              | Some m \<Rightarrow> np_sqrt m))"

subsection \<open>The metric as the specification words it\<close>

text \<open>
  The specification's formula, written with positions instead of labels: the weight of
  latitude row \<open>j\<close> is \<open>cos\<close> of the latitude in radians divided by the mean of these
  cosines, the error at \<open>(i, j, k)\<close> is the squared difference of the two entries at
  that position, and the result is the root of the mean of the weighted errors over all
  positions. It is undefined (\<open>None\<close>) where there is no position, where the mean
  cosine is zero, and where the weighted mean is negative.
\<close>

definition spec_weight :: "real list \<Rightarrow> nat \<Rightarrow> real" where
  "spec_weight lats j = cos (lats ! j * pi / 180)"

definition spec_mean_weight :: "real list \<Rightarrow> real" where
  "spec_mean_weight lats = (\<Sum>j<length lats. spec_weight lats j) / real (length lats)"

definition spec_weighted_rmse :: "field \<Rightarrow> field \<Rightarrow> real option" where
  "spec_weighted_rmse fc gt =
     (let T = length (time fc); La = length (lat fc); Lo = length (lon fc);
          wbar = spec_mean_weight (lat fc);
          m = (\<Sum>i<T. \<Sum>j<La. \<Sum>k<Lo.
                 (vals fc ! i ! j ! k - vals gt ! i ! j ! k) ^ 2 * (spec_weight (lat fc) j / wbar))
              / real (T * La * Lo)
      in if T * La * Lo = 0 \<or> wbar = 0 \<or> m < 0 then None else Some (sqrt m))"

definition shaped :: "nat \<Rightarrow> nat \<Rightarrow> grid list \<Rightarrow> bool" where
  "shaped la lo vs \<longleftrightarrow> (\<forall>g \<in> set vs. length g = la \<and> (\<forall>r \<in> set g. length r = lo))"

section \<open>The persistence baseline\<close>

text \<open>
  \<open>persistence_fc = z500.sel(time=test_years).isel(time=slice(0, -lead_time_steps))\<close>
  followed by
  \<open>persistence_fc['time'] = persistence_fc.time + np.timedelta64(5, 'D').astype('timedelta64[ns]')\<close>.
  The function below takes the selected field and the number of steps.
\<close>

definition lead_time_steps :: nat where
  "lead_time_steps = 10"

definition five_days :: int where
  "five_days = 5 * ns_per_day"

definition persistence_fc :: "nat \<Rightarrow> field \<Rightarrow> field" where
  "persistence_fc k f =
     (let p = isel_until_neg k f
      in p\<lparr>time := map (\<lambda>t. t + five_days) (time p)\<rparr>)"

definition persistence_rmse :: "field \<Rightarrow> real option" where
  "persistence_rmse z500 =
     (let target = sel_time (in_years test_years) z500
      in computed_weighted_rmse (persistence_fc lead_time_steps target) target)"

subsection \<open>The same statements on a store of objects\<close>

text \<open>
  Every xarray call of the cell (\<open>sel\<close>, \<open>isel\<close>) returns a new object; the item
  assignment \<open>persistence_fc['time'] = ...\<close> is the one update in place, and it acts on
  the object the name \<open>persistence_fc\<close> is bound to. Objects live in a store and are
  referred to by their address.
\<close>

record store =
  next_id :: nat
  objs :: "nat \<rightharpoonup> field"

definition store_ok :: "store \<Rightarrow> bool" where
  "store_ok s \<longleftrightarrow> (\<forall>a. a \<ge> next_id s \<longrightarrow> objs s a = None)"

definition new_obj :: "field \<Rightarrow> store \<Rightarrow> nat \<times> store" where
  "new_obj v s = (next_id s, s\<lparr>next_id := Suc (next_id s), objs := (objs s)(next_id s \<mapsto> v)\<rparr>)"

definition setitem_time :: "nat \<Rightarrow> int list \<Rightarrow> store \<Rightarrow> store" where
  "setitem_time a ts s =
     (case objs s a of
        None \<Rightarrow> s
      | Some v \<Rightarrow> s\<lparr>objs := (objs s)(a \<mapsto> v\<lparr>time := ts\<rparr>)\<rparr>)"

definition sel_obj :: "(int \<Rightarrow> bool) \<Rightarrow> nat \<Rightarrow> store \<Rightarrow> (nat \<times> store) option" where
  "sel_obj P a s = (case objs s a of None \<Rightarrow> None | Some v \<Rightarrow> Some (new_obj (sel_time P v) s))"

definition isel_obj :: "nat \<Rightarrow> nat \<Rightarrow> store \<Rightarrow> (nat \<times> store) option" where
  "isel_obj k a s =
     (case objs s a of None \<Rightarrow> None | Some v \<Rightarrow> Some (new_obj (isel_until_neg k v) s))"

text \<open>The two statements that build the forecast from the object at address \<open>f\<close>.\<close>

definition run_persistence :: "nat \<Rightarrow> nat \<Rightarrow> store \<Rightarrow> (nat \<times> store) option" where
  "run_persistence k f s =
     (case isel_obj k f s of
        None \<Rightarrow> None
      | Some (p, s1) \<Rightarrow>
          (case objs s1 p of
             None \<Rightarrow> None
           | Some vp \<Rightarrow> Some (p, setitem_time p (map (\<lambda>t. t + five_days) (time vp)) s1)))"

text \<open>The cell: the forecast is built from \<open>z500.sel(time=test_years)\<close>.\<close>

definition run_persistence_cell :: "nat \<Rightarrow> store \<Rightarrow> (nat \<times> store) option" where
  "run_persistence_cell z500 s =
     (case sel_obj (in_years test_years) z500 s of
        None \<Rightarrow> None
      | Some (f, s1) \<Rightarrow> run_persistence lead_time_steps f s1)"

section \<open>The climatology baseline\<close>

text \<open>
  \<open>groupby('time.dayofyear').mean()\<close> yields one grid per day-of-year label that occurs
  in the time axis, the labels in increasing order; each grid is the mean over the
  entries of the group, cell by cell.
\<close>

record climatology =
  dayofyear_axis :: "int list"
  c_lat :: "real list"
  c_lon :: "real list"
  c_vals :: "grid list"

definition wf_climatology :: "climatology \<Rightarrow> bool" where
  "wf_climatology c \<longleftrightarrow>
     distinct (dayofyear_axis c) \<and> length (c_vals c) = length (dayofyear_axis c)"

definition group_mean :: "nat \<Rightarrow> nat \<Rightarrow> grid list \<Rightarrow> grid" where
  "group_mean la lo gs =
     map (\<lambda>i. map (\<lambda>j. sum_list (map (\<lambda>g. g ! i ! j) gs) / real (length gs)) [0..<lo]) [0..<la]"

definition group_of :: "int \<Rightarrow> field \<Rightarrow> grid list" where
  "group_of d f = map snd (filter (\<lambda>p. dayofyear (fst p) = d) (zip (time f) (vals f)))"

definition groupby_dayofyear_mean :: "field \<Rightarrow> climatology" where
  "groupby_dayofyear_mean f =
     (let ds = sort (remdups (map dayofyear (time f)))
      in \<lparr>dayofyear_axis = ds, c_lat = lat f, c_lon = lon f,
          c_vals = map (\<lambda>d. group_mean (length (lat f)) (length (lon f)) (group_of d f)) ds\<rparr>)"

definition clim :: "field \<Rightarrow> climatology" where
  "clim z500 = groupby_dayofyear_mean (sel_time (in_years train_years) z500)"

text \<open>
  \<open>clim.sel(dayofyear=ds.time.dt.dayofyear)\<close> picks, for every time label, the grid
  stored under the label's day of year; the result is indexed by these time labels. A
  day of year without an entry raises \<open>KeyError\<close>.
\<close>

datatype error = KeyError int

definition sel_dayofyear :: "climatology \<Rightarrow> int list \<Rightarrow> error + field" where
  "sel_dayofyear c ts =
     (case filter (\<lambda>t. dayofyear t \<notin> set (dayofyear_axis c)) ts of
        t # _ \<Rightarrow> Inl (KeyError (dayofyear t))
      | [] \<Rightarrow> Inr \<lparr>time = ts, lat = c_lat c, lon = c_lon c,
                  vals = map (\<lambda>t. the (map_of (zip (dayofyear_axis c) (c_vals c)) (dayofyear t))) ts\<rparr>)"

text \<open>
  \<open>computed_weighted_rmse(clim.sel(dayofyear=z500.sel(time=test_years).time.dt.dayofyear), z500)\<close>,
  for a given table.
\<close>

definition climatology_rmse :: "climatology \<Rightarrow> field \<Rightarrow> error + real option" where
  "climatology_rmse table z500 =
     (case sel_dayofyear table (time (sel_time (in_years test_years) z500)) of
        Inl e \<Rightarrow> Inl e
      | Inr fc \<Rightarrow> Inr (computed_weighted_rmse fc z500))"

section \<open>Normalised training, validation and test arrays\<close>

definition cells :: "field \<Rightarrow> real list" where
  "cells f = concat (concat (vals f))"

definition np_std :: "real list \<Rightarrow> real option" where
  "np_std xs =
     (case np_mean xs of
        None \<Rightarrow> None
      | Some m \<Rightarrow> (case np_mean (map (\<lambda>x. (x - m) ^ 2) xs) of
                     None \<Rightarrow> None
                   | Some v \<Rightarrow> Some (sqrt v)))"

text \<open>
  \<open>(data - mean) / std\<close> with scalar \<open>mean\<close> and \<open>std\<close>: an entry is not a finite
  number when a statistic is not or when \<open>std\<close> is zero.
\<close>

definition norm_cell :: "real option \<Rightarrow> real option \<Rightarrow> real \<Rightarrow> real option" where
  "norm_cell m s x =
     (case (m, s) of
        (Some m', Some s') \<Rightarrow> if s' = 0 then None else Some ((x - m') / s')
      | _ \<Rightarrow> None)"

type_synonym narray = "real option list list list"

definition normalize :: "real option \<Rightarrow> real option \<Rightarrow> field \<Rightarrow> narray" where
  "normalize m s f = map (map (map (norm_cell m s))) (vals f)"

text \<open>\<open>a[..., None]\<close> appends an axis of length one.\<close>

definition expand_last :: "narray \<Rightarrow> real option list list list list" where
  "expand_last a = map (map (map (\<lambda>x. [x]))) a"

definition get_train_valid_test_dataset ::
  "nat \<Rightarrow> field \<Rightarrow>
   real option list list list list \<times> real option list list list list \<times>
   real option list list list list \<times> real option list list list list \<times>
   real option list list list list \<times> real option list list list list \<times>
   real option \<times> real option" where
  "get_train_valid_test_dataset lead_steps z500_dataset =
     (let train_data = sel_time (in_years train_years) z500_dataset;
          valid_data = sel_time (in_years valid_years) z500_dataset;
          test_data = sel_time (in_years test_years) z500_dataset;
          mean = np_mean (cells train_data);
          std = np_std (cells train_data);
          train_n = normalize mean std train_data;
          valid_n = normalize mean std valid_data;
          test_n = normalize mean std test_data;
          X_train = expand_last (slice_until_neg lead_steps train_n);
          Y_train = expand_last (drop lead_steps train_n);
          X_valid = expand_last (slice_until_neg lead_steps valid_n);
          Y_valid = expand_last (drop lead_steps valid_n);
          X_test = expand_last (slice_until_neg lead_steps test_n);
          Y_test = expand_last (drop lead_steps test_n)
      in (X_train, Y_train, X_valid, Y_valid, X_test, Y_test, mean, std))"

text \<open>
  The image of raw values under the map \<open>x \<mapsto> (x - m) / s\<close>, entry by entry, with the
  appended axis.
\<close>

definition affine_image ::
  "real option \<Rightarrow> real option \<Rightarrow> grid list \<Rightarrow> real option list list list list" where
  "affine_image m s vs = map (map (map (\<lambda>x. [norm_cell m s x]))) vs"

section \<open>Example inputs\<close>

text \<open>
  Small fields on which the statements below are evaluated. Time labels are twelve
  hours apart unless said otherwise.
\<close>

definition ex_zero :: field where
  "ex_zero = \<lparr>time = [0, 43200000000000, 86400000000000], lat = [0, 60], lon = [0, 180],
     vals = [[[0, 0], [0, 0]], [[0, 0], [0, 0]], [[0, 0], [0, 0]]]\<rparr>"

definition ex_one :: field where
  "ex_one = \<lparr>time = [0, 43200000000000, 86400000000000], lat = [0, 60], lon = [0, 180],
     vals = [[[1, 1], [1, 1]], [[1, 1], [1, 1]], [[1, 1], [1, 1]]]\<rparr>"

text \<open>Two fields of two entries each whose time axes overlap in one label only.\<close>

definition shift_fc :: field where
  "shift_fc = \<lparr>time = [0, 43200000000000], lat = [0], lon = [0], vals = [[[0]], [[3]]]\<rparr>"

definition shift_gt :: field where
  "shift_gt = \<lparr>time = [43200000000000, 86400000000000], lat = [0], lon = [0],
     vals = [[[3]], [[0]]]\<rparr>"

text \<open>A field without any time entry.\<close>

definition empty_field :: field where
  "empty_field = \<lparr>time = [], lat = [0, 60], lon = [0, 180], vals = []\<rparr>"

text \<open>
  A cosine of latitudes in degrees that takes at the two poles the value double precision
  gives there, and the exact value elsewhere.
\<close>

definition cos_deg_double :: "real \<Rightarrow> real" where
  "cos_deg_double x =
     (if x = 90 \<or> x = - 90 then 6123233995736766 / 10 ^ 32 else cos (deg2rad x))"

text \<open>A field whose only latitude is the north pole.\<close>

definition pole_field :: field where
  "pole_field = \<lparr>time = [0, 43200000000000], lat = [90], lon = [0, 180],
     vals = [[[5, 7]], [[1, 2]]]\<rparr>"

text \<open>A forecast with two latitude rows against a ground truth with one.\<close>

definition mismatch_fc :: field where
  "mismatch_fc = \<lparr>time = [0], lat = [0, 60], lon = [0], vals = [[[2], [5]]]\<rparr>"

definition mismatch_gt :: field where
  "mismatch_gt = \<lparr>time = [0], lat = [0], lon = [0], vals = [[[0]]]\<rparr>"

text \<open>A field without any longitude.\<close>

definition no_lon :: field where
  "no_lon = \<lparr>time = [0], lat = [0], lon = [], vals = [[[]]]\<rparr>"

text \<open>Three entries five days apart.\<close>

definition days5 :: field where
  "days5 = \<lparr>time = [0, 432000000000000, 864000000000000], lat = [0], lon = [0],
     vals = [[[1]], [[2]], [[4]]]\<rparr>"

text \<open>Twelve entries one hour apart, numbered by their value.\<close>

definition hourly :: field where
  "hourly = \<lparr>time = [0, 3600000000000, 7200000000000, 10800000000000, 14400000000000,
       18000000000000, 21600000000000, 25200000000000, 28800000000000, 32400000000000,
       36000000000000, 39600000000000],
     lat = [0], lon = [0],
     vals = [[[0]], [[1]], [[2]], [[3]], [[4]], [[5]], [[6]], [[7]], [[8]], [[9]], [[10]], [[11]]]\<rparr>"

text \<open>A store with one object.\<close>

definition store0 :: store where
  "store0 = \<lparr>next_id = 1, objs = [0 \<mapsto> days5]\<rparr>"

text \<open>
  A series over two years, 2017-01-01, 2017-01-02, 2018-01-01 and 2018-01-02 at midnight,
  and the table of its averages per day of year.
\<close>

definition two_years :: field where
  "two_years = \<lparr>time = [1483228800000000000, 1483315200000000000,
                         1514764800000000000, 1514851200000000000],
     lat = [0, 60], lon = [0],
     vals = [[[1], [10]], [[2], [20]], [[3], [30]], [[6], [60]]]\<rparr>"

definition table2 :: climatology where
  "table2 = \<lparr>dayofyear_axis = [1, 2], c_lat = [0, 60], c_lon = [0],
     c_vals = [[[2], [20]], [[4], [40]]]\<rparr>"

text \<open>
  A data set with one entry in 2016 (2016-12-31) and three in the test years
  (2017-01-01, 2017-01-02, 2018-01-01).
\<close>

definition z_small :: field where
  "z_small = \<lparr>time = [1483142400000000000, 1483228800000000000, 1483315200000000000,
                       1514764800000000000],
     lat = [0, 60], lon = [0],
     vals = [[[7], [70]], [[3], [21]], [[3], [39]], [[1], [19]]]\<rparr>"

text \<open>
  A data set with the entries 2015-01-01, 2015-01-02, 2016-01-01, 2017-01-01 and
  2018-01-01 on a grid of one cell.
\<close>

definition z_split :: field where
  "z_split = \<lparr>time = [1420070400000000000, 1420156800000000000, 1451606400000000000,
                       1483228800000000000, 1514764800000000000],
     lat = [0], lon = [0],
     vals = [[[1]], [[3]], [[5]], [[2]], [[4]]]\<rparr>"

section \<open>The day of year lies between 1 and 366\<close>

text \<open>
  Four hundred times the day number of a first of January differs from 146097 times the
  number of years since 1970 by less than four years' worth of days, so that the year
  estimated from the mean length of a year is off by one at most, and the year found
  begins on or before the given day and ends after it.
\<close>

lemma div_lower: "0 < k \<Longrightarrow> k * (n div k) \<le> (n::int)"
  using mult_div_mod_eq[of k n] pos_mod_sign[of k n] by linarith

lemma div_upper: "0 < k \<Longrightarrow> (n::int) < k * (n div k) + k"
  using mult_div_mod_eq[of k n] pos_mod_bound[of k n] by linarith

lemma dby_upper_aux:
  fixes a b c n :: int
  assumes "4 * a \<le> n" "400 * c \<le> n" "n < 100 * b + 100"
  shows "400 * (365 * (n - 1969) + (a - b + c) - 477) \<le> 146097 * (n - 1969) + 600"
proof -
  have 1: "400 * a \<le> 100 * n" using assms(1) by simp
  have 2: "4 * n \<le> 400 * b + 400" using assms(3) by simp
  have "400 * a + 400 * c + 4 * n \<le> 100 * n + n + (400 * b + 400)"
    using 1 assms(2) 2 by (intro add_mono)
  then show ?thesis by (simp add: algebra_simps)
qed

lemma dby_lower_aux:
  fixes a b c n :: int
  assumes "n < 4 * a + 4" "n < 400 * c + 400" "100 * b \<le> n"
  shows "146097 * (n - 1969) - 1408 < 400 * (365 * (n - 1969) + (a - b + c) - 477)"
proof -
  have 1: "100 * n \<le> 400 * a + 400" using assms(1) by simp
  have 2: "n \<le> 400 * c + 400" using assms(2) by simp
  have 3: "400 * b \<le> 4 * n" using assms(3) by simp
  have "100 * n + n + 400 * b \<le> (400 * a + 400) + (400 * c + 400) + 4 * n"
    using 1 2 3 by (intro add_mono)
  then show ?thesis by (simp add: algebra_simps)
qed

lemma dby_upper: "400 * days_before_year y \<le> 146097 * (y - 1970) + 600"
  using dby_upper_aux[of "(y - 1) div 4" "y - 1" "(y - 1) div 400" "(y - 1) div 100"]
    div_lower[of 4 "y - 1"] div_lower[of 400 "y - 1"] div_upper[of 100 "y - 1"]
  by (simp add: days_before_year_def)

lemma dby_lower: "146097 * (y - 1970) - 1408 < 400 * days_before_year y"
  using dby_lower_aux[of "y - 1" "(y - 1) div 4" "(y - 1) div 400" "(y - 1) div 100"]
    div_upper[of 4 "y - 1"] div_upper[of 400 "y - 1"] div_lower[of 100 "y - 1"]
  by (simp add: days_before_year_def)

lemma year_below:
  fixes e z dl :: int
  assumes "146097 * e \<le> 400 * z" "400 * dl \<le> 146097 * (e - 1) + 600"
  shows "dl \<le> z"
proof -
  have "400 * dl \<le> 400 * z" using assms by (simp add: algebra_simps)
  then show ?thesis by simp
qed

lemma year_above:
  fixes e z dh :: int
  assumes "400 * z < 146097 * e + 146097" "146097 * (e + 2) - 1408 < 400 * dh"
  shows "z < dh"
proof -
  have "400 * z < 400 * dh" using assms by (simp add: algebra_simps)
  then show ?thesis by simp
qed

lemma year_bracket:
  "days_before_year (year_of_day z) \<le> z \<and> z < days_before_year (year_of_day z + 1)"
proof -
  define e where "e = (400 * z) div 146097"
  have e: "146097 * e \<le> 400 * z" "400 * z < 146097 * e + 146097"
    unfolding e_def by (simp_all add: div_lower div_upper)
  have lo: "days_before_year (1970 + e - 1) \<le> z"
    using dby_upper[of "1970 + e - 1"] by (intro year_below[OF e(1)]) simp
  have hi: "z < days_before_year (1970 + e + 1 + 1)"
    using dby_lower[of "1970 + e + 1 + 1"] by (intro year_above[OF e(2)]) simp
  show ?thesis
  proof (cases "z < days_before_year (1970 + e)")
    case True
    then show ?thesis using lo by (simp add: year_of_day_def Let_def e_def[symmetric])
  next
    case False
    then show ?thesis using hi
      by (cases "days_before_year (1970 + e + 1) \<le> z")
         (simp_all add: year_of_day_def Let_def e_def[symmetric] add.commute add.left_commute)
  qed
qed

text \<open>A year has 366 days at most.\<close>

lemma step_ge0: "0 < k \<Longrightarrow> 0 \<le> (y::int) div k - (y - 1) div k"
  using zdiv_mono1[of "y - 1" y k] by simp

lemma step_le1:
  assumes "0 < (k::int)"
  shows "y div k - (y - 1) div k \<le> 1"
proof -
  have "y div k \<le> (y - 1 + k) div k" using assms by (intro zdiv_mono1) simp_all
  also have "\<dots> = (y - 1) div k + 1" using assms by simp
  finally show ?thesis by simp
qed

lemma step400:
  "(y::int) div 400 - (y - 1) div 400 \<le> y div 100 - (y - 1) div 100"
proof -
  have a: "y div 400 = (y div 100) div 4" "(y - 1) div 400 = ((y - 1) div 100) div 4"
    using zdiv_zmult2_eq[of 4 y 100] zdiv_zmult2_eq[of 4 "y - 1" 100] by simp_all
  consider "y div 100 = (y - 1) div 100" | "y div 100 = (y - 1) div 100 + 1"
    using step_ge0[of 100 y] step_le1[of 100 y] by linarith
  then show ?thesis
  proof cases
    case 1 then show ?thesis by (simp add: a)
  next
    case 2
    then show ?thesis using step_le1[of 4 "(y - 1) div 100 + 1"] by (simp add: a)
  qed
qed

lemma year_length_le: "days_before_year (y + 1) - days_before_year y \<le> 366"
  using step_le1[of 4 y] step_ge0[of 100 y] step400[of y] by (simp add: days_before_year_def)

lemma dayofyear_range: "1 \<le> dayofyear t \<and> dayofyear t \<le> 366"
proof -
  let ?z = "day_number t"
  have "days_before_year (year t) \<le> ?z" "?z < days_before_year (year t + 1)"
    using year_bracket[of ?z] by (simp_all add: year_def)
  moreover have "days_before_year (year t + 1) - days_before_year (year t) \<le> 366"
    by (rule year_length_le)
  ultimately show ?thesis by (simp add: dayofyear_def)
qed

section \<open>Properties of the error metric\<close>

subsection \<open>Re-indexing and sums over cells\<close>

lemma reindex_same:
  assumes "distinct ks" "length xs = length ks"
  shows "reindex ks ks xs = xs"
proof (rule nth_equalityI)
  show "length (reindex ks ks xs) = length xs" using assms by (simp add: reindex_def)
next
  fix i assume "i < length (reindex ks ks xs)"
  then have i: "i < length ks" by (simp add: reindex_def)
  have "map_of (zip ks xs) (ks ! i) = Some (xs ! i)"
    using assms i by (simp add: map_of_zip_nth)
  then show "reindex ks ks xs ! i = xs ! i" using i by (simp add: reindex_def)
qed

lemma common_same: "common xs xs = xs"
  by (simp add: common_def)

lemma reindex_field_same:
  assumes "wf_field f"
  shows "reindex_field (time f) (lat f) (lon f) f = f"
proof -
  have t: "reindex (time f) (time f) (vals f) = vals f"
    using assms by (simp add: wf_field_def reindex_same)
  have g: "\<And>g. g \<in> set (vals f) \<Longrightarrow>
      map (\<lambda>r. reindex (lon f) (lon f) r) (reindex (lat f) (lat f) g) = g"
  proof -
    fix g assume g: "g \<in> set (vals f)"
    then have "reindex (lat f) (lat f) g = g"
      using assms by (simp add: wf_field_def reindex_same)
    moreover have "map (\<lambda>r. reindex (lon f) (lon f) r) g = g"
      using assms g by (intro map_idI) (simp add: wf_field_def reindex_same)
    ultimately show "map (\<lambda>r. reindex (lon f) (lon f) r) (reindex (lat f) (lat f) g) = g"
      by simp
  qed
  have "map (\<lambda>g. map (\<lambda>r. reindex (lon f) (lon f) r) (reindex (lat f) (lat f) g)) (vals f) = vals f"
    using g by (intro map_idI) simp
  then show ?thesis by (simp add: reindex_field_def t)
qed

lemma sum_list_concat: "sum_list (concat xss) = sum_list (map sum_list xss)"
  by (induction xss) simp_all

lemma sum_list_nth_lessThan: "sum_list (map f xs) = (\<Sum>i<length xs. f (xs ! i))"
  by (simp add: sum_list_sum_nth atLeast0LessThan)

lemma sum_row:
  "sum_list (map (\<lambda>e. e ^ 2 * wl) r) = (\<Sum>k<length r. (r ! k) ^ 2 * wl)"
  by (rule sum_list_nth_lessThan)

lemma sum_grid:
  assumes "length g = length w"
  shows "sum_list (concat (map2 (\<lambda>r wl. map (\<lambda>e. e ^ 2 * wl) r) g w)) =
         (\<Sum>j<length w. \<Sum>k<length (g ! j). (g ! j ! k) ^ 2 * (w ! j))"
proof -
  have "sum_list (concat (map2 (\<lambda>r wl. map (\<lambda>e. e ^ 2 * wl) r) g w)) =
        sum_list (map (\<lambda>p. sum_list (map (\<lambda>e. e ^ 2 * snd p) (fst p))) (zip g w))"
    by (simp add: sum_list_concat comp_def case_prod_unfold)
  also have "\<dots> = (\<Sum>j<length (zip g w). sum_list (map (\<lambda>e. e ^ 2 * snd (zip g w ! j)) (fst (zip g w ! j))))"
    by (rule sum_list_nth_lessThan)
  also have "\<dots> = (\<Sum>j<length w. \<Sum>k<length (g ! j). (g ! j ! k) ^ 2 * (w ! j))"
    using assms by (simp add: sum_row)
  finally show ?thesis .
qed

lemma sum_weighted_sq:
  assumes "shaped (length w) lo vs"
  shows "sum_list (weighted_sq w vs) =
         (\<Sum>i<length vs. \<Sum>j<length w. \<Sum>k<lo. (vs ! i ! j ! k) ^ 2 * (w ! j))"
proof -
  have "sum_list (weighted_sq w vs) =
        sum_list (map (\<lambda>g. sum_list (concat (map2 (\<lambda>r wl. map (\<lambda>e. e ^ 2 * wl) r) g w))) vs)"
    by (simp add: weighted_sq_def sum_list_concat comp_def)
  also have "\<dots> = (\<Sum>i<length vs. sum_list (concat (map2 (\<lambda>r wl. map (\<lambda>e. e ^ 2 * wl) r) (vs ! i) w)))"
    by (rule sum_list_nth_lessThan)
  also have "\<dots> = (\<Sum>i<length vs. \<Sum>j<length w. \<Sum>k<lo. (vs ! i ! j ! k) ^ 2 * (w ! j))"
  proof (rule sum.cong[OF refl])
    fix i assume "i \<in> {..<length vs}"
    then have m: "vs ! i \<in> set vs" by simp
    then have l: "length (vs ! i) = length w" using assms by (simp add: shaped_def)
    have r: "\<And>j. j < length w \<Longrightarrow> length (vs ! i ! j) = lo"
      using assms m l by (simp add: shaped_def)
    show "sum_list (concat (map2 (\<lambda>r wl. map (\<lambda>e. e ^ 2 * wl) r) (vs ! i) w)) =
          (\<Sum>j<length w. \<Sum>k<lo. (vs ! i ! j ! k) ^ 2 * (w ! j))"
      using r by (simp add: sum_grid[OF l])
  qed
  finally show ?thesis .
qed

lemma length_grid:
  assumes "length g = length w" "\<forall>r \<in> set g. length r = lo"
  shows "length (concat (map2 (\<lambda>r wl. map (\<lambda>e. e ^ 2 * wl) r) g w)) = length w * lo"
  using assms
proof (induction g arbitrary: w)
  case Nil then show ?case by simp
next
  case (Cons r g)
  then obtain x w' where w: "w = x # w'" by (cases w) auto
  with Cons show ?case by simp
qed

lemma length_weighted_sq:
  assumes "shaped (length w) lo vs"
  shows "length (weighted_sq w vs) = length vs * (length w * lo)"
  using assms
proof (induction vs)
  case Nil then show ?case by (simp add: weighted_sq_def)
next
  case (Cons g vs)
  then have "length (concat (map2 (\<lambda>r wl. map (\<lambda>e. e ^ 2 * wl) r) g w)) = length w * lo"
    by (intro length_grid) (simp_all add: shaped_def)
  moreover have "length (weighted_sq w vs) = length vs * (length w * lo)"
    using Cons by (simp add: shaped_def)
  ultimately show ?case by (simp add: weighted_sq_def)
qed

lemma align_same:
  assumes "wf_field a" "wf_field b" "time a = time b" "lat a = lat b" "lon a = lon b"
  shows "align a b = (a, b)"
  using reindex_field_same[OF assms(1)] reindex_field_same[OF assms(2)] assms(3-5)
  by (simp add: align_def common_same)

lemma wf_shaped: "wf_field f \<Longrightarrow> shaped (length (lat f)) (length (lon f)) (vals f)"
  by (simp add: wf_field_def shaped_def)

lemma shaped_nth:
  "shaped la lo vs \<Longrightarrow> i < length vs \<Longrightarrow> length (vs ! i) = la"
  "shaped la lo vs \<Longrightarrow> i < length vs \<Longrightarrow> j < la \<Longrightarrow> length (vs ! i ! j) = lo"
proof -
  assume s: "shaped la lo vs" and i: "i < length vs"
  then show "length (vs ! i) = la" by (simp add: shaped_def)
next
  assume s: "shaped la lo vs" and i: "i < length vs" and j: "j < la"
  have m: "vs ! i \<in> set vs" using i by simp
  then have l: "length (vs ! i) = la" using s by (simp add: shaped_def)
  then have "vs ! i ! j \<in> set (vs ! i)" using j by simp
  then show "length (vs ! i ! j) = lo" using s m by (auto simp: shaped_def)
qed

lemma shaped_diff:
  assumes "shaped la lo xs" "shaped la lo ys" "length xs = length ys"
  shows "shaped la lo (map2 (map2 (map2 (\<lambda>x y. x - y))) xs ys)"
  unfolding shaped_def
proof (intro ballI conjI)
  fix g assume "g \<in> set (map2 (map2 (map2 (\<lambda>x y. x - y))) xs ys)"
  then obtain a b where ab: "(a, b) \<in> set (zip xs ys)" and g: "g = map2 (map2 (\<lambda>x y. x - y)) a b"
    by auto
  have a: "a \<in> set xs" and b: "b \<in> set ys" using ab by (auto dest: set_zip_leftD set_zip_rightD)
  show "length g = la" using a b assms g by (simp add: shaped_def)
  fix r assume "r \<in> set g"
  then obtain c d where cd: "(c, d) \<in> set (zip a b)" and r: "r = map2 (\<lambda>x y. x - y) c d"
    using g by auto
  have "c \<in> set a" "d \<in> set b" using cd by (auto dest: set_zip_leftD set_zip_rightD)
  then show "length r = lo" using a b assms r by (simp add: shaped_def)
qed

lemma diff_nth:
  assumes "shaped la lo xs" "shaped la lo ys" "length xs = length ys"
    "i < length xs" "j < la" "k < lo"
  shows "map2 (map2 (map2 (\<lambda>x y. x - y))) xs ys ! i ! j ! k = xs ! i ! j ! k - ys ! i ! j ! (k::nat)"
proof -
  have 1: "length (xs ! i) = la" "length (ys ! i) = la"
    using assms by (simp_all add: shaped_nth)
  have 2: "length (xs ! i ! j) = lo" "length (ys ! i ! j) = lo"
    using assms by (simp_all add: shaped_nth)
  show ?thesis using assms 1 2 by simp
qed

lemma sum_cos_nth:
  "sum_list (map (\<lambda>x. cos (deg2rad x)) lats) = (\<Sum>j<length lats. spec_weight lats j)"
  by (simp add: sum_list_nth_lessThan spec_weight_def deg2rad_def)

lemma weights_lat_cases:
  "weights_lat lats =
     (if lats = [] then Some []
      else if spec_mean_weight lats = 0 then None
      else Some (map (\<lambda>x. cos (deg2rad x) / spec_mean_weight lats) lats))"
  by (simp add: weights_lat_def np_mean_def Let_def spec_mean_weight_def sum_cos_nth comp_def)

lemma rmse_of_error:
  assumes "shaped (length lats) lo vs"
  shows "(case weights_lat lats of None \<Rightarrow> None
          | Some w \<Rightarrow> (case np_mean (weighted_sq w vs) of None \<Rightarrow> None | Some m \<Rightarrow> np_sqrt m)) =
         (let wbar = spec_mean_weight lats;
              m = (\<Sum>i<length vs. \<Sum>j<length lats. \<Sum>k<lo.
                     (vs ! i ! j ! k) ^ 2 * (spec_weight lats j / wbar))
                  / real (length vs * length lats * lo)
          in if length vs * length lats * lo = 0 \<or> wbar = 0 \<or> m < 0 then None else Some (sqrt m))"
proof (cases "lats = []")
  case True
  have "length (weighted_sq [] vs) = 0"
    using assms True length_weighted_sq[of "[]" lo vs] by simp
  then show ?thesis using True by (simp add: weights_lat_cases np_mean_def Let_def)
next
  case False
  show ?thesis
  proof (cases "spec_mean_weight lats = 0")
    case True
    then show ?thesis using False by (simp add: weights_lat_cases Let_def)
  next
    case nz: False
    define w where "w = map (\<lambda>x. cos (deg2rad x) / spec_mean_weight lats) lats"
    have lw: "length w = length lats" by (simp add: w_def)
    have sh: "shaped (length w) lo vs" using assms lw by simp
    have wn: "\<And>j. j < length lats \<Longrightarrow> w ! j = spec_weight lats j / spec_mean_weight lats"
      by (simp add: w_def spec_weight_def deg2rad_def)
    have len: "length (weighted_sq w vs) = length vs * length lats * lo"
      using length_weighted_sq[OF sh] lw by simp
    have s: "sum_list (weighted_sq w vs) =
        (\<Sum>i<length vs. \<Sum>j<length lats. \<Sum>k<lo.
            (vs ! i ! j ! k) ^ 2 * (spec_weight lats j / spec_mean_weight lats))"
      unfolding sum_weighted_sq[OF sh] lw
      by (intro sum.cong refl) (simp add: wn)
    have wl: "weights_lat lats = Some w"
      using False nz by (simp add: weights_lat_cases w_def)
    show ?thesis
    proof (cases "length vs * length lats * lo = 0")
      case True
      then have "length (weighted_sq w vs) = 0" using len by simp
      then have "weighted_sq w vs = []" by simp
      then show ?thesis using True by (simp add: wl np_mean_def Let_def)
    next
      case False
      then have "weighted_sq w vs \<noteq> []" using len by auto
      then show ?thesis using False nz
        by (simp add: wl np_mean_def Let_def np_sqrt_def s len)
    qed
  qed
qed

lemma shaped_reindex_field:
  "shaped (length las) (length los) (vals (reindex_field ts las los f))"
  "length (vals (reindex_field ts las los f)) = length ts"
  by (auto simp: shaped_def reindex_field_def reindex_def)

lemma align_axes:
  "time (fst (align a b)) = common (time a) (time b)"
  "lat (fst (align a b)) = common (lat a) (lat b)"
  "lon (fst (align a b)) = common (lon a) (lon b)"
  "time (snd (align a b)) = common (time a) (time b)"
  "lat (snd (align a b)) = common (lat a) (lat b)"
  "lon (snd (align a b)) = common (lon a) (lon b)"
  by (simp_all add: align_def Let_def reindex_field_def)

lemma align_shaped:
  "shaped (length (common (lat a) (lat b))) (length (common (lon a) (lon b))) (vals (fst (align a b)))"
  "shaped (length (common (lat a) (lat b))) (length (common (lon a) (lon b))) (vals (snd (align a b)))"
  "length (vals (fst (align a b))) = length (common (time a) (time b))"
  "length (vals (snd (align a b))) = length (common (time a) (time b))"
  by (simp_all add: align_def Let_def shaped_reindex_field)

lemma sub_fields_parts:
  "time (sub_fields a b) = common (time a) (time b)"
  "lat (sub_fields a b) = common (lat a) (lat b)"
  "lon (sub_fields a b) = common (lon a) (lon b)"
  "vals (sub_fields a b) =
     map2 (map2 (map2 (\<lambda>x y. x - y))) (vals (fst (align a b))) (vals (snd (align a b)))"
  by (simp_all add: sub_fields_def Let_def case_prod_unfold align_axes)

lemma rmse_align:
  "computed_weighted_rmse fc gt = spec_weighted_rmse (fst (align fc gt)) (snd (align fc gt))"
proof -
  let ?a = "fst (align fc gt)" and ?b = "snd (align fc gt)"
  let ?las = "common (lat fc) (lat gt)" and ?los = "common (lon fc) (lon gt)"
  let ?d = "map2 (map2 (map2 (\<lambda>x y. x - y))) (vals ?a) (vals ?b)"
  have l: "length (vals ?a) = length (vals ?b)" by (simp add: align_shaped)
  have shd: "shaped (length ?las) (length ?los) ?d"
    using align_shaped(1) align_shaped(2) l by (rule shaped_diff)
  have ld: "length ?d = length (time ?a)" by (simp add: align_shaped align_axes)
  have "computed_weighted_rmse fc gt =
      (case weights_lat ?las of None \<Rightarrow> None
        | Some w \<Rightarrow> (case np_mean (weighted_sq w ?d) of None \<Rightarrow> None | Some m \<Rightarrow> np_sqrt m))"
    by (simp add: computed_weighted_rmse_def sub_fields_parts cong: option.case_cong)
  also have "\<dots> = spec_weighted_rmse ?a ?b"
    unfolding rmse_of_error[OF shd] spec_weighted_rmse_def ld Let_def align_axes
    using diff_nth[OF align_shaped(1) align_shaped(2) l] align_shaped(3)[of fc gt]
    by simp
  finally show ?thesis .
qed

lemma rmse_same_axes:
  assumes "wf_field fc" "wf_field gt"
    and "time fc = time gt" "lat fc = lat gt" "lon fc = lon gt"
  shows "computed_weighted_rmse fc gt = spec_weighted_rmse fc gt"
  by (simp add: rmse_align align_same[OF assms])

subsection \<open>Restriction to common labels\<close>

lemma map_of_filter_fst:
  "map_of (filter (\<lambda>p. P (fst p)) xs) k = (if P k then map_of xs k else None)"
  by (induction xs) auto

lemma zip_filter_fst:
  "length ts = length vs \<Longrightarrow>
   zip (filter P ts) (map snd (filter (\<lambda>p. P (fst p)) (zip ts vs))) =
   filter (\<lambda>p. P (fst p)) (zip ts vs)"
  by (induction ts vs rule: list_induct2) auto

lemma sel_time_axes [simp]:
  "time (sel_time P f) = filter P (time f)"
  "lat (sel_time P f) = lat f"
  "lon (sel_time P f) = lon f"
  "vals (sel_time P f) = map snd (filter (\<lambda>p. P (fst p)) (zip (time f) (vals f)))"
  by (simp_all add: sel_time_def)

lemma reindex_sel_time:
  assumes "length (vals f) = length (time f)" and "\<forall>t \<in> set ts. P t"
  shows "reindex ts (time (sel_time P f)) (vals (sel_time P f)) = reindex ts (time f) (vals f)"
  using assms by (simp add: reindex_def zip_filter_fst map_of_filter_fst)

lemma reindex_field_sel_time:
  assumes "length (vals f) = length (time f)" and "\<forall>t \<in> set ts. P t"
  shows "reindex_field ts las los (sel_time P f) = reindex_field ts las los f"
  using reindex_sel_time[OF assms] by (simp add: reindex_field_def)

lemma align_sel_time_right:
  assumes "length (vals b) = length (time b)"
    and "\<forall>t \<in> set (time a). t \<in> set (time b) \<longrightarrow> P t"
  shows "align a (sel_time P b) = align a b"
proof -
  have c: "common (time a) (filter P (time b)) = common (time a) (time b)"
    unfolding common_def using assms(2) by (intro filter_cong refl) auto
  have "\<forall>t \<in> set (common (time a) (time b)). P t"
    using assms(2) by (simp add: common_def)
  then show ?thesis
    using assms(1) by (simp add: align_def Let_def c reindex_field_sel_time)
qed

lemma align_sel_time_left:
  assumes "length (vals a) = length (time a)"
    and "\<forall>t \<in> set (time a). t \<in> set (time b) \<longrightarrow> P t"
  shows "align (sel_time P a) b = align a b"
proof -
  have c: "common (filter P (time a)) (time b) = common (time a) (time b)"
    unfolding common_def filter_filter using assms(2) by (intro filter_cong refl) auto
  have "\<forall>t \<in> set (common (time a) (time b)). P t"
    using assms(2) by (simp add: common_def)
  then show ?thesis
    using assms(1) by (simp add: align_def Let_def c reindex_field_sel_time)
qed

lemma rmse_cong_align:
  "align a b = align a' b' \<Longrightarrow> computed_weighted_rmse a b = computed_weighted_rmse a' b'"
  by (simp add: computed_weighted_rmse_def sub_fields_def)

lemma rmse_common_times:
  assumes "wf_field fc" "wf_field gt"
  shows "computed_weighted_rmse fc gt =
         computed_weighted_rmse (sel_time (\<lambda>t. t \<in> set (time gt)) fc)
                                (sel_time (\<lambda>t. t \<in> set (time fc)) gt)"
proof -
  let ?fc = "sel_time (\<lambda>t. t \<in> set (time gt)) fc"
  have "align ?fc (sel_time (\<lambda>t. t \<in> set (time fc)) gt) = align ?fc gt"
    using assms(2) by (intro align_sel_time_right) (simp_all add: wf_field_def)
  also have "\<dots> = align fc gt"
    using assms(1) by (intro align_sel_time_left) (simp_all add: wf_field_def)
  finally show ?thesis by (rule rmse_cong_align[symmetric])
qed

lemma length_slice_until_neg:
  "length (slice_until_neg k xs) = (if k = 0 then 0 else length xs - k)"
  by (simp add: slice_until_neg_def)

lemma persistence_fc_parts:
  "time (persistence_fc k f) = map (\<lambda>t. t + five_days) (slice_until_neg k (time f))"
  "vals (persistence_fc k f) = slice_until_neg k (vals f)"
  "lat (persistence_fc k f) = lat f"
  "lon (persistence_fc k f) = lon f"
  by (simp_all add: persistence_fc_def isel_until_neg_def Let_def)

lemma rmse_empty:
  assumes "common (time fc) (time gt) = [] \<or> common (lat fc) (lat gt) = [] \<or>
           common (lon fc) (lon gt) = []"
  shows "computed_weighted_rmse fc gt = None"
  using assms by (auto simp: rmse_align spec_weighted_rmse_def Let_def align_axes)

subsection \<open>Latitudes between the poles\<close>

text \<open>Strictly between the poles the exact cosine of a latitude is positive.\<close>

lemma cos_deg_pos:
  assumes "- 90 < x" "x < 90"
  shows "0 < cos (deg2rad x)"
proof -
  have "pi * (- 90) < pi * x" "pi * x < pi * 90"
    using assms pi_gt_zero by (intro mult_strict_left_mono; simp)+
  then have "- (pi / 2) < deg2rad x" "deg2rad x < pi / 2"
    by (simp_all add: deg2rad_def field_simps)
  then show ?thesis by (rule cos_gt_zero_pi)
qed

subsection \<open>Evaluation on concrete inputs\<close>

lemmas eval_defs = computed_weighted_rmse_def sub_fields_def align_def common_def
  reindex_field_def reindex_def weights_lat_def np_mean_def deg2rad_def weighted_sq_def
  np_sqrt_def Let_def

lemmas spec_defs = spec_weighted_rmse_def spec_mean_weight_def spec_weight_def Let_def
  lessThan_Suc numeral_2_eq_2 numeral_3_eq_3

lemma sum_list_divide: "sum_list (map (\<lambda>x. x / c) xs) = sum_list xs / (c::real)"
  by (induction xs) (simp_all add: add_divide_distrib)

subsection \<open>The value of the metric\<close>

text \<open>
  Claim C1, as amended. For a forecast and a ground truth with identical latitude,
  longitude and time axes (the same labels, not only the same length),
  \<open>computed_weighted_rmse\<close> returns the square root of the mean, over time, latitude
  and longitude jointly, of the squared difference of the entries at the same position
  times the latitude weight \<open>cos(lat in radians)\<close> divided by the mean of these
  cosines, the weight of a latitude row being used along the time and longitude axes.
\<close>

theorem computed_weighted_rmse_formula:
  assumes "wf_field fc" "wf_field gt"
    and "time fc = time gt" "lat fc = lat gt" "lon fc = lon gt"
  shows "computed_weighted_rmse fc gt = spec_weighted_rmse fc gt"
  using assms by (rule rmse_same_axes)

text \<open>
  The scenario of the specification: an all-zero forecast against an all-one ground truth
  on three time steps, the latitudes 0 and 60 degrees and two longitudes has the error 1.
\<close>

theorem computed_weighted_rmse_formula_witness:
  "computed_weighted_rmse ex_zero ex_one = Some 1"
proof -
  have "wf_field ex_zero" "wf_field ex_one"
    by (simp_all add: wf_field_def ex_zero_def ex_one_def)
  moreover have "time ex_zero = time ex_one" "lat ex_zero = lat ex_one" "lon ex_zero = lon ex_one"
    by (simp_all add: ex_zero_def ex_one_def)
  ultimately have "computed_weighted_rmse ex_zero ex_one = spec_weighted_rmse ex_zero ex_one"
    by (rule computed_weighted_rmse_formula)
  also have "\<dots> = Some 1"
    by (simp add: spec_defs ex_zero_def ex_one_def cos_60)
  finally show ?thesis .
qed

text \<open>
  With equal time length but different time labels the subtraction pairs the entries by
  label: of \<open>shift_fc\<close> and \<open>shift_gt\<close> only the entries labelled twelve hours meet,
  and they are equal, so the result is 0, while the formula taken position by position
  gives 3.
\<close>

theorem equal_time_length_counterexample:
  "length (time shift_fc) = length (time shift_gt) \<and> lat shift_fc = lat shift_gt \<and>
   lon shift_fc = lon shift_gt \<and>
   computed_weighted_rmse shift_fc shift_gt = Some 0 \<and>
   spec_weighted_rmse shift_fc shift_gt = Some 3"
proof -
  have "sqrt 9 = 3" using real_sqrt_abs[of 3] by simp
  then show ?thesis
    by (simp add: eval_defs spec_defs shift_fc_def shift_gt_def)
qed

subsection \<open>Normalisation of the latitude weights\<close>

text \<open>
  The functions with the cosine as a parameter are the functions with the exact cosine
  when the parameter is the exact cosine; the weights are defined and have the mean 1 as
  soon as the cosines do not sum to zero, which they do not when all are positive.
\<close>

lemma weights_lat_by_exact: "weights_lat_by (\<lambda>x. cos (deg2rad x)) lats = weights_lat lats"
  by (simp add: weights_lat_by_def weights_lat_def)

lemma rmse_by_exact:
  "computed_weighted_rmse_by (\<lambda>x. cos (deg2rad x)) fc gt = computed_weighted_rmse fc gt"
  by (simp add: computed_weighted_rmse_by_def computed_weighted_rmse_def weights_lat_by_exact)

lemma sum_list_pos_all:
  "xs \<noteq> [] \<Longrightarrow> \<forall>x \<in> set xs. 0 < f x \<Longrightarrow> 0 < sum_list (map f xs :: real list)"
proof (induction xs)
  case Nil
  then show ?case by simp
next
  case (Cons a xs)
  show ?case
  proof (cases "xs = []")
    case True
    then show ?thesis using Cons.prems by simp
  next
    case False
    then have "0 < sum_list (map f xs)" using Cons by simp
    moreover have "0 < f a" using Cons.prems by simp
    ultimately show ?thesis by simp
  qed
qed

lemma weights_lat_by_normalised:
  assumes "lats \<noteq> []" and "sum_list (map cosd lats) \<noteq> 0"
  shows "\<exists>w. weights_lat_by cosd lats = Some w \<and> length w = length lats \<and> np_mean w = Some 1"
proof -
  let ?c = "map cosd lats"
  let ?m = "sum_list ?c / real (length lats)"
  have m: "?m \<noteq> 0" using assms by simp
  have w: "weights_lat_by cosd lats = Some (map (\<lambda>x. x / ?m) ?c)"
    using assms m by (simp add: weights_lat_by_def np_mean_def Let_def)
  have "sum_list (map (\<lambda>x. x / ?m) ?c) = sum_list ?c / ?m"
    by (rule sum_list_divide)
  also have "\<dots> = real (length lats)" using assms by simp
  finally have "np_mean (map (\<lambda>x. x / ?m) ?c) = Some 1"
    using assms(1) by (simp add: np_mean_def)
  with w show ?thesis by simp
qed

lemma cos_deg_double_pos: "- 90 \<le> x \<and> x \<le> 90 \<longrightarrow> 0 < cos_deg_double x"
proof
  assume r: "- 90 \<le> x \<and> x \<le> 90"
  show "0 < cos_deg_double x"
  proof (cases "x = 90 \<or> x = - 90")
    case True
    then show ?thesis by (simp add: cos_deg_double_def)
  next
    case False
    then have "- 90 < x" "x < 90" using r by auto
    then have "0 < cos (deg2rad x)" by (rule cos_deg_pos)
    then show ?thesis using False by (simp add: cos_deg_double_def)
  qed
qed



subsection \<open>A field against itself\<close>

lemma rmse_by_self:
  assumes "wf_field f" and "time f \<noteq> []" and "lat f \<noteq> []" and "lon f \<noteq> []"
    and "weights_lat_by cosd (lat f) = Some w" and "length w = length (lat f)"
  shows "computed_weighted_rmse_by cosd f f = Some 0"
proof -
  let ?d = "map2 (map2 (map2 (\<lambda>x y. x - y))) (vals f) (vals f)"
  have al: "align f f = (f, f)" using assms(1) by (intro align_same) simp_all
  have la: "lat (sub_fields f f) = lat f" by (simp add: sub_fields_parts common_same)
  have va: "vals (sub_fields f f) = ?d" by (simp add: sub_fields_parts al)
  have shf: "shaped (length w) (length (lon f)) (vals f)"
    using wf_shaped[OF assms(1)] assms(6) by simp
  have sh: "shaped (length w) (length (lon f)) ?d"
    using shf shf refl by (rule shaped_diff)
  have ld: "length ?d = length (time f)" using assms(1) by (simp add: wf_field_def)
  have len: "length (weighted_sq w ?d) = length (time f) * (length (lat f) * length (lon f))"
    using length_weighted_sq[OF sh] ld assms(6) by simp
  have ne: "weighted_sq w ?d \<noteq> []"
  proof
    assume "weighted_sq w ?d = []"
    then have "length (weighted_sq w ?d) = 0" by simp
    then show False using len assms(2-4) by simp
  qed
  have z: "?d ! i ! j ! k = 0" if "i < length ?d" "j < length w" "k < length (lon f)" for i j k
  proof -
    have "i < length (vals f)" using that(1) by simp
    then show ?thesis using diff_nth[OF shf shf refl _ that(2,3)] by simp
  qed
  have "sum_list (weighted_sq w ?d) =
      (\<Sum>i<length ?d. \<Sum>j<length w. \<Sum>k<length (lon f). (?d ! i ! j ! k) ^ 2 * (w ! j))"
    by (rule sum_weighted_sq[OF sh])
  also have "\<dots> = 0" using z by simp
  finally have s: "sum_list (weighted_sq w ?d) = 0" .
  have "np_mean (weighted_sq w ?d) = Some 0" using ne s by (simp add: np_mean_def)
  then show ?thesis
    using assms(5) by (simp add: computed_weighted_rmse_by_def Let_def la va np_sqrt_def)
qed

text \<open>
  Claim C7, as amended. With the cosine as numpy computes it, for every field with at
  least one entry along each of time, latitude and longitude, whose latitudes lie between
  -90 and 90 degrees, poles included, \<open>computed_weighted_rmse f f\<close> is 0.
\<close>

theorem rmse_self_zero:
  assumes "\<forall>x. - 90 \<le> x \<and> x \<le> 90 \<longrightarrow> 0 < cosd x"
    and "wf_field f" and "time f \<noteq> []" and "lat f \<noteq> []" and "lon f \<noteq> []"
    and "\<forall>x \<in> set (lat f). - 90 \<le> x \<and> x \<le> 90"
  shows "computed_weighted_rmse_by cosd f f = Some 0"
proof -
  have "\<forall>x \<in> set (lat f). 0 < cosd x" using assms(1,6) by blast
  with assms(4) have "0 < sum_list (map cosd (lat f))" by (rule sum_list_pos_all)
  then have "sum_list (map cosd (lat f)) \<noteq> 0" by simp
  with assms(4) obtain w where "weights_lat_by cosd (lat f) = Some w" "length w = length (lat f)"
    using weights_lat_by_normalised by blast
  with assms(2-5) show ?thesis by (rule rmse_by_self)
qed

text \<open>A field on the north pole alone, and the all-one field on the latitudes 0 and 60.\<close>

theorem rmse_self_zero_witness:
  "computed_weighted_rmse_by cos_deg_double pole_field pole_field = Some 0 \<and>
   computed_weighted_rmse_by cos_deg_double ex_one ex_one = Some 0"
proof -
  have p: "\<forall>x. - 90 \<le> x \<and> x \<le> 90 \<longrightarrow> 0 < cos_deg_double x"
    using cos_deg_double_pos by blast
  have "computed_weighted_rmse_by cos_deg_double pole_field pole_field = Some 0"
    using p by (rule rmse_self_zero) (simp_all add: wf_field_def pole_field_def)
  moreover have "computed_weighted_rmse_by cos_deg_double ex_one ex_one = Some 0"
    using p by (rule rmse_self_zero) (simp_all add: wf_field_def ex_one_def)
  ultimately show ?thesis by simp
qed

text \<open>
  A field without time entries has no cell; the mean of no cell is not a number, and
  neither is the result, whatever the cosine.
\<close>

theorem rmse_self_empty_counterexample:
  "computed_weighted_rmse empty_field empty_field = None \<and>
   computed_weighted_rmse_by cos_deg_double empty_field empty_field = None"
  by (simp add: eval_defs computed_weighted_rmse_by_def weights_lat_by_def cos_deg_double_def
      empty_field_def cos_60)

subsection \<open>Inputs with different axes\<close>

text \<open>
  Claim C3, as amended. \<open>computed_weighted_rmse\<close> validates nothing and has no failing
  outcome: for any two inputs, compatible or not, it returns the value of the formula on
  the two inputs re-indexed to the labels they have in common, and when either input has
  no entry along some axis the result is the value that is not a number.
\<close>

theorem rmse_never_raises:
  "computed_weighted_rmse fc gt = spec_weighted_rmse (fst (align fc gt)) (snd (align fc gt)) \<and>
   (time fc = [] \<or> lat fc = [] \<or> lon fc = [] \<or> time gt = [] \<or> lat gt = [] \<or> lon gt = []
      \<longrightarrow> computed_weighted_rmse fc gt = None)"
proof -
  have "computed_weighted_rmse fc gt = None"
    if "time fc = [] \<or> lat fc = [] \<or> lon fc = [] \<or> time gt = [] \<or> lat gt = [] \<or> lon gt = []"
    using that by (intro rmse_empty) (auto simp: common_def)
  then show ?thesis by (simp add: rmse_align)
qed

theorem rmse_never_raises_witness:
  "computed_weighted_rmse no_lon ex_one = None"
proof -
  have "lon no_lon = []" by (simp add: no_lon_def)
  then show ?thesis using rmse_never_raises[of no_lon ex_one] by blast
qed

text \<open>
  A forecast with the latitudes 0 and 60 against a ground truth with the latitude 0 is
  compared on the latitude 0 alone and yields the number 2; a field without longitudes
  yields the value that is not a number. Neither is a failure.
\<close>

theorem shape_mismatch_counterexample:
  "lat mismatch_fc \<noteq> lat mismatch_gt \<and>
   computed_weighted_rmse mismatch_fc mismatch_gt = Some 2 \<and>
   computed_weighted_rmse no_lon no_lon = None"
proof -
  have "sqrt 4 = 2" using real_sqrt_abs[of 2] by simp
  then show ?thesis
    by (simp add: eval_defs mismatch_fc_def mismatch_gt_def no_lon_def)
qed

text \<open>
  Claim C10. For inputs with different time axes the subtraction keeps the time labels
  present in both: the result is the one obtained from the two inputs restricted to
  their common time labels, the time axis of the error holds exactly these labels, and
  the entries outside the overlap have no influence. For the persistence forecast of
  \<open>k \<ge> 1\<close> steps built from a non-empty field and compared with that field, the
  overlap is shorter than the field's time axis.
\<close>

theorem rmse_over_common_times:
  "(wf_field fc \<and> wf_field gt \<longrightarrow>
      computed_weighted_rmse fc gt =
      computed_weighted_rmse (sel_time (\<lambda>t. t \<in> set (time gt)) fc)
                             (sel_time (\<lambda>t. t \<in> set (time fc)) gt)) \<and>
   time (sub_fields fc gt) = filter (\<lambda>t. t \<in> set (time gt)) (time fc) \<and>
   (1 \<le> k \<and> time f \<noteq> [] \<longrightarrow>
      length (time (sub_fields (persistence_fc k f) f)) < length (time f))"
proof -
  have "length (time (sub_fields (persistence_fc k f) f)) < length (time f)"
    if "1 \<le> k" "time f \<noteq> []"
  proof -
    have "length (time (sub_fields (persistence_fc k f) f)) \<le> length (time (persistence_fc k f))"
      by (simp add: sub_fields_parts common_def)
    also have "\<dots> < length (time f)"
      using that by (simp add: persistence_fc_parts length_slice_until_neg)
    finally show ?thesis .
  qed
  then show ?thesis
    by (simp add: rmse_common_times sub_fields_parts common_def)
qed

text \<open>
  Three entries five days apart and one step: the forecast carries the labels of day 5
  and day 10, the entry of day 0 of the ground truth is dropped, and the error is
  computed from the two remaining pairs.
\<close>

theorem rmse_over_common_times_witness:
  "computed_weighted_rmse (persistence_fc 1 days5) days5 = Some (sqrt (5 / 2)) \<and>
   time (sub_fields (persistence_fc 1 days5) days5) = [432000000000000, 864000000000000] \<and>
   length (time (sub_fields (persistence_fc 1 days5) days5)) < length (time days5)"
proof -
  note inst = rmse_over_common_times[of "persistence_fc 1 days5" days5 1 days5]
  have wf: "wf_field days5" by (simp add: wf_field_def days5_def)
  have wfp: "wf_field (persistence_fc 1 days5)"
    by (simp add: wf_field_def persistence_fc_def isel_until_neg_def slice_until_neg_def
        five_days_def ns_per_day_def days5_def Let_def)
  have "computed_weighted_rmse (persistence_fc 1 days5) days5 =
      computed_weighted_rmse (sel_time (\<lambda>t. t \<in> set (time days5)) (persistence_fc 1 days5))
                             (sel_time (\<lambda>t. t \<in> set (time (persistence_fc 1 days5))) days5)"
    using inst wf wfp by blast
  also have "\<dots> = Some (sqrt (5 / 2))"
    by (simp add: eval_defs sel_time_def persistence_fc_def isel_until_neg_def
        slice_until_neg_def five_days_def ns_per_day_def days5_def)
  finally have 1: "computed_weighted_rmse (persistence_fc 1 days5) days5 = Some (sqrt (5 / 2))" .
  have 2: "time (sub_fields (persistence_fc 1 days5) days5) = [432000000000000, 864000000000000]"
    by (simp add: sub_fields_parts common_def persistence_fc_def isel_until_neg_def
        slice_until_neg_def five_days_def ns_per_day_def days5_def Let_def)
  have "(1::nat) \<le> 1 \<and> time days5 \<noteq> []" by (simp add: days5_def)
  then have 3: "length (time (sub_fields (persistence_fc 1 days5) days5)) < length (time days5)"
    using inst by blast
  from 1 2 3 show ?thesis by simp
qed

section \<open>Properties of the persistence baseline\<close>

text \<open>
  For \<open>1 \<le> k < length (time f)\<close> the forecast has \<open>length (time f) - k\<close> entries,
  entry \<open>i\<close> carries the values of entry \<open>i\<close> of \<open>f\<close>, and its label is the label of
  entry \<open>i\<close> advanced by five days, whatever \<open>k\<close> and the spacing of the labels are.
\<close>

lemma persistence_fc_entries:
  assumes "1 \<le> k" "k < length (time f)" "length (vals f) = length (time f)"
  shows "length (time (persistence_fc k f)) = length (time f) - k"
    and "length (vals (persistence_fc k f)) = length (time f) - k"
    and "\<forall>i < length (time f) - k.
           vals (persistence_fc k f) ! i = vals f ! i \<and>
           time (persistence_fc k f) ! i = time f ! i + five_days"
  using assms by (simp_all add: persistence_fc_parts slice_until_neg_def)

text \<open>
  Claim C2, at an input where the code and the claim part. On twelve hourly entries and
  the notebook's ten steps the forecast keeps the first two entries with their values, as
  claimed, and labels them five days after their own labels; the duration of ten steps
  of one hour, which the claim asks for, leads to the labels of ten hours later.
\<close>

theorem persistence_labels_hourly:
  "time (persistence_fc lead_time_steps hourly) = [432000000000000, 435600000000000] \<and>
   vals (persistence_fc lead_time_steps hourly) = [[[0]], [[1]]] \<and>
   map (\<lambda>t. t + int lead_time_steps * 3600000000000) (take 2 (time hourly)) =
     [36000000000000, 39600000000000] \<and>
   time (persistence_fc lead_time_steps hourly) \<noteq>
     map (\<lambda>t. t + int lead_time_steps * 3600000000000) (take 2 (time hourly))"
  by (simp add: persistence_fc_def isel_until_neg_def slice_until_neg_def lead_time_steps_def
      five_days_def ns_per_day_def hourly_def Let_def)

lemma new_obj_frame:
  assumes "store_ok s" "new_obj v s = (a, s')"
  shows "store_ok s'" "a = next_id s" "objs s' a = Some v" "objs s a = None"
    "\<forall>b. b \<noteq> a \<longrightarrow> objs s' b = objs s b" "next_id s' = Suc (next_id s)"
  using assms by (auto simp: new_obj_def store_ok_def)

text \<open>
  Claim C8. Building the forecast from the object at address \<open>f\<close> returns a new
  object, different from \<open>f\<close>, that holds the forecast; the object at \<open>f\<close> holds the
  same field as before (values, time labels and coordinate axes), and so does every other
  object of the store: the assignment of the new time labels reaches the new object only.
\<close>

theorem persistence_keeps_input:
  assumes "store_ok s" and "objs s f = Some v"
  shows "\<exists>p s'. run_persistence k f s = Some (p, s') \<and> p \<noteq> f \<and>
           objs s' p = Some (persistence_fc k v) \<and>
           objs s' f = Some v \<and>
           (\<forall>a. a \<noteq> p \<longrightarrow> objs s' a = objs s a)"
proof -
  obtain p s1 where n: "new_obj (isel_until_neg k v) s = (p, s1)"
    by (cases "new_obj (isel_until_neg k v) s")
  note fr = new_obj_frame[OF assms(1) n]
  have pf: "p \<noteq> f" using fr(4) assms(2) by auto
  let ?s' = "setitem_time p (map (\<lambda>t. t + five_days) (time (isel_until_neg k v))) s1"
  have run: "run_persistence k f s = Some (p, ?s')"
    using assms(2) n fr(3) by (simp add: run_persistence_def isel_obj_def)
  have op: "objs ?s' p = Some (persistence_fc k v)"
    using fr(3) by (simp add: setitem_time_def persistence_fc_def Let_def)
  have oth: "\<forall>a. a \<noteq> p \<longrightarrow> objs ?s' a = objs s a"
    using fr(3,5) by (simp add: setitem_time_def)
  then have "objs ?s' f = Some v" using pf assms(2) by simp
  with run pf op oth show ?thesis by blast
qed

theorem persistence_keeps_input_witness:
  "\<exists>p s'. run_persistence 1 0 store0 = Some (p, s') \<and> p \<noteq> 0 \<and>
      objs s' p = Some (persistence_fc 1 days5) \<and> objs s' 0 = Some days5"
proof -
  have "store_ok store0" by (simp add: store_ok_def store0_def)
  moreover have "objs store0 0 = Some days5" by (simp add: store0_def)
  ultimately show ?thesis using persistence_keeps_input[of store0 0 days5 1] by blast
qed

section \<open>Properties of the climatology baseline\<close>

subsection \<open>The table\<close>

lemma zip_as_map_nth:
  "length ts = length vs \<Longrightarrow> zip ts vs = map (\<lambda>n. (ts ! n, vs ! n)) [0..<length ts]"
  by (rule nth_equalityI) simp_all

lemma group_of_indices:
  assumes "length (vals f) = length (time f)"
  shows "group_of d f =
         map (\<lambda>n. vals f ! n) (filter (\<lambda>n. dayofyear (time f ! n) = d) [0..<length (time f)])"
  unfolding group_of_def zip_as_map_nth[OF assms[symmetric]]
  by (simp add: filter_map comp_def)

lemma set_group_indices:
  "set (filter (\<lambda>n. Q n) [0..<T]) = {m. m < T \<and> Q m}"
  by auto

lemma group_sum:
  assumes "length (vals f) = length (time f)"
  shows "sum_list (map h (group_of d f)) =
         (\<Sum>m \<in> {m. m < length (time f) \<and> dayofyear (time f ! m) = d}. h (vals f ! m))"
proof -
  let ?ix = "filter (\<lambda>n. dayofyear (time f ! n) = d) [0..<length (time f)]"
  have "sum_list (map h (group_of d f)) = sum_list (map (\<lambda>n. h (vals f ! n)) ?ix)"
    by (simp add: group_of_indices[OF assms] comp_def)
  also have "\<dots> = sum (\<lambda>n. h (vals f ! n)) (set ?ix)"
    by (rule sum_list_distinct_conv_sum_set) simp
  finally show ?thesis by (simp only: set_group_indices)
qed

lemma group_length:
  assumes "length (vals f) = length (time f)"
  shows "length (group_of d f) = card {m. m < length (time f) \<and> dayofyear (time f ! m) = d}"
proof -
  let ?ix = "filter (\<lambda>n. dayofyear (time f ! n) = d) [0..<length (time f)]"
  have "length (group_of d f) = length ?ix" by (simp add: group_of_indices[OF assms])
  also have "\<dots> = card (set ?ix)" by (rule distinct_card[symmetric]) simp
  finally show ?thesis by (simp only: set_group_indices)
qed

lemma group_mean_nth:
  "i < la \<Longrightarrow> j < lo \<Longrightarrow>
   group_mean la lo gs ! i ! j = sum_list (map (\<lambda>g. g ! i ! j) gs) / real (length gs)"
  by (simp add: group_mean_def)

lemma clim_axis:
  "dayofyear_axis (groupby_dayofyear_mean f) = sort (remdups (map dayofyear (time f)))"
  "c_lat (groupby_dayofyear_mean f) = lat f"
  "c_lon (groupby_dayofyear_mean f) = lon f"
  "length (c_vals (groupby_dayofyear_mean f)) = length (dayofyear_axis (groupby_dayofyear_mean f))"
  by (simp_all add: groupby_dayofyear_mean_def Let_def)

lemma clim_vals_nth:
  "n < length (dayofyear_axis (groupby_dayofyear_mean f)) \<Longrightarrow>
   c_vals (groupby_dayofyear_mean f) ! n =
   group_mean (length (lat f)) (length (lon f))
     (group_of (dayofyear_axis (groupby_dayofyear_mean f) ! n) f)"
  by (simp add: groupby_dayofyear_mean_def Let_def)

text \<open>
  Claim C5. The table built from a field has one entry per day-of-year label that occurs
  on the field's time axis, the labels in increasing order without repetition and between
  1 and 366, and the entry of a label is, grid cell by grid cell, the sum of the field's
  values over all time entries with that day of year divided by the number of these
  entries.
\<close>

theorem climatology_is_group_average:
  assumes "wf_field f"
  shows "sorted (dayofyear_axis (groupby_dayofyear_mean f)) \<and>
         distinct (dayofyear_axis (groupby_dayofyear_mean f)) \<and>
         set (dayofyear_axis (groupby_dayofyear_mean f)) = dayofyear ` set (time f) \<and>
         (\<forall>d \<in> set (dayofyear_axis (groupby_dayofyear_mean f)). 1 \<le> d \<and> d \<le> 366) \<and>
         (\<forall>n < length (dayofyear_axis (groupby_dayofyear_mean f)).
            \<forall>i < length (lat f). \<forall>j < length (lon f).
              c_vals (groupby_dayofyear_mean f) ! n ! i ! j =
              (\<Sum>m \<in> {m. m < length (time f) \<and>
                          dayofyear (time f ! m) = dayofyear_axis (groupby_dayofyear_mean f) ! n}.
                  vals f ! m ! i ! j)
              / real (card {m. m < length (time f) \<and>
                          dayofyear (time f ! m) = dayofyear_axis (groupby_dayofyear_mean f) ! n}))"
proof -
  have l: "length (vals f) = length (time f)" using assms by (simp add: wf_field_def)
  have 1: "sorted (dayofyear_axis (groupby_dayofyear_mean f))"
    and 2: "distinct (dayofyear_axis (groupby_dayofyear_mean f))"
    and 3: "set (dayofyear_axis (groupby_dayofyear_mean f)) = dayofyear ` set (time f)"
    by (simp_all add: clim_axis)
  have 5: "\<forall>d \<in> set (dayofyear_axis (groupby_dayofyear_mean f)). 1 \<le> d \<and> d \<le> 366"
    unfolding 3 using dayofyear_range by blast
  have 4: "c_vals (groupby_dayofyear_mean f) ! n ! i ! j =
      (\<Sum>m \<in> {m. m < length (time f) \<and>
                  dayofyear (time f ! m) = dayofyear_axis (groupby_dayofyear_mean f) ! n}.
          vals f ! m ! i ! j)
      / real (card {m. m < length (time f) \<and>
                  dayofyear (time f ! m) = dayofyear_axis (groupby_dayofyear_mean f) ! n})"
    if "n < length (dayofyear_axis (groupby_dayofyear_mean f))" "i < length (lat f)"
       "j < length (lon f)" for n i j
    using that
    by (simp add: clim_vals_nth group_mean_nth group_sum[OF l] group_length[OF l])
  from 1 2 3 5 4 show ?thesis by blast
qed

text \<open>
  On the series of two years with the values 1 and 3 on the first day of the year and 2
  and 6 on the second (ten times as much in the second latitude row) the table holds the
  averages 2 and 4 (20 and 40).
\<close>

lemma two_years_doy:
  "dayofyear 1483228800000000000 = 1" "dayofyear 1483315200000000000 = 2"
  "dayofyear 1514764800000000000 = 1" "dayofyear 1514851200000000000 = 2"
  by code_simp+

lemma two_years_group1: "group_of 1 two_years = [[[1], [10]], [[3], [30]]]"
  by (simp add: group_of_def two_years_def two_years_doy)

lemma two_years_group2: "group_of 2 two_years = [[[2], [20]], [[6], [60]]]"
  by (simp add: group_of_def two_years_def two_years_doy)

lemma two_years_axis: "sort (remdups (map dayofyear (time two_years))) = [1, 2]"
  by (simp add: two_years_def two_years_doy)

lemma two_years_means: "group_mean (length [0, 60::real]) (length [0::real]) [[[1], [10]], [[3], [30]]] = [[2], [20]]"
   "group_mean (length [0, 60::real]) (length [0::real]) [[[2], [20]], [[6], [60]]] = [[4], [40]]"
  by (simp_all add: group_mean_def upt_rec)

lemma clim_two_years: "groupby_dayofyear_mean two_years = table2"
proof -
  have "groupby_dayofyear_mean two_years =
     \<lparr>dayofyear_axis = [1, 2], c_lat = lat two_years, c_lon = lon two_years,
      c_vals = map (\<lambda>d. group_mean (length (lat two_years)) (length (lon two_years)) (group_of d two_years)) [1, 2]\<rparr>"
    by (simp add: groupby_dayofyear_mean_def two_years_axis Let_def)
  also have "\<dots> = table2"
    using two_years_means by (simp add: two_years_group1 two_years_group2 table2_def) (simp add: two_years_def)
  finally show ?thesis .
qed

theorem climatology_is_group_average_witness:
  "groupby_dayofyear_mean two_years = table2 \<and>
   sorted (dayofyear_axis table2) \<and>
   set (dayofyear_axis table2) = dayofyear ` set (time two_years) \<and>
   c_vals table2 ! 1 ! 0 ! 0 =
     (\<Sum>m \<in> {m. m < length (time two_years) \<and> dayofyear (time two_years ! m) = dayofyear_axis table2 ! 1}.
        vals two_years ! m ! 0 ! 0)
     / real (card {m. m < length (time two_years) \<and>
                      dayofyear (time two_years ! m) = dayofyear_axis table2 ! 1})"
proof -
  have wf: "wf_field two_years" by (simp add: wf_field_def two_years_def)
  note inst = climatology_is_group_average[OF wf, unfolded clim_two_years]
  have "(1::nat) < length (dayofyear_axis table2)" "(0::nat) < length (lat two_years)"
    "(0::nat) < length (lon two_years)"
    by (simp_all add: table2_def two_years_def)
  with inst clim_two_years show ?thesis by blast
qed

subsection \<open>The error of the climatology forecast\<close>

lemma sel_dayofyear_Inr:
  assumes "sel_dayofyear c ts = Inr fc"
  shows "time fc = ts" "lat fc = c_lat c" "lon fc = c_lon c"
    "vals fc = map (\<lambda>t. the (map_of (zip (dayofyear_axis c) (c_vals c)) (dayofyear t))) ts"
    "\<forall>t \<in> set ts. dayofyear t \<in> set (dayofyear_axis c)"
proof -
  have e: "filter (\<lambda>t. dayofyear t \<notin> set (dayofyear_axis c)) ts = []"
    using assms by (auto simp: sel_dayofyear_def split: list.splits)
  then show "\<forall>t \<in> set ts. dayofyear t \<in> set (dayofyear_axis c)"
    by (auto simp: filter_empty_conv)
  show "time fc = ts" "lat fc = c_lat c" "lon fc = c_lon c"
    "vals fc = map (\<lambda>t. the (map_of (zip (dayofyear_axis c) (c_vals c)) (dayofyear t))) ts"
    using assms e by (auto simp: sel_dayofyear_def)
qed

lemma sel_dayofyear_entry:
  assumes "wf_climatology c" "sel_dayofyear c ts = Inr fc" "i < length ts"
  shows "\<exists>n < length (dayofyear_axis c).
           dayofyear_axis c ! n = dayofyear (ts ! i) \<and> vals fc ! i = c_vals c ! n"
proof -
  have "dayofyear (ts ! i) \<in> set (dayofyear_axis c)"
    using sel_dayofyear_Inr(5)[OF assms(2)] assms(3) by simp
  then obtain n where n: "n < length (dayofyear_axis c)" "dayofyear_axis c ! n = dayofyear (ts ! i)"
    by (auto simp: in_set_conv_nth)
  have "map_of (zip (dayofyear_axis c) (c_vals c)) (dayofyear_axis c ! n) = Some (c_vals c ! n)"
    using assms(1) n(1) by (intro map_of_zip_nth) (simp_all add: wf_climatology_def)
  then have "vals fc ! i = c_vals c ! n"
    using assms(3) n(2) by (simp add: sel_dayofyear_Inr(4)[OF assms(2)])
  with n show ?thesis by blast
qed

lemma sel_dayofyear_missing:
  assumes "t \<in> set ts" "dayofyear t \<notin> set (dayofyear_axis c)"
  shows "\<exists>d. sel_dayofyear c ts = Inl (KeyError d)"
proof -
  have "filter (\<lambda>t. dayofyear t \<notin> set (dayofyear_axis c)) ts \<noteq> []"
    using assms by (auto simp: filter_empty_conv)
  then show ?thesis by (auto simp: sel_dayofyear_def split: list.splits)
qed

text \<open>
  Claim C4. The climatology evaluation takes, for each time entry of the target field
  (the test years of the data set), the table entry of that entry's day of year; the
  forecast has exactly the target's time axis, and the value returned is
  \<open>computed_weighted_rmse\<close> of this forecast against the target field: passing the whole
  data set as ground truth gives the same value. A day of year missing from the table is
  an error.
\<close>

theorem climatology_rmse_against_target:
  assumes "wf_field z500"
  shows "climatology_rmse table z500 =
           (case sel_dayofyear table (time (sel_time (in_years test_years) z500)) of
              Inl e \<Rightarrow> Inl e
            | Inr fc \<Rightarrow> Inr (computed_weighted_rmse fc (sel_time (in_years test_years) z500))) \<and>
         (\<forall>fc. wf_climatology table \<and>
               sel_dayofyear table (time (sel_time (in_years test_years) z500)) = Inr fc \<longrightarrow>
               time fc = time (sel_time (in_years test_years) z500) \<and>
               (\<forall>i < length (time fc). \<exists>n < length (dayofyear_axis table).
                   dayofyear_axis table ! n = dayofyear (time fc ! i) \<and>
                   vals fc ! i = c_vals table ! n))"
proof -
  let ?P = "in_years test_years"
  let ?ts = "time (sel_time ?P z500)"
  have l: "length (vals z500) = length (time z500)" using assms by (simp add: wf_field_def)
  have a: "computed_weighted_rmse fc z500 = computed_weighted_rmse fc (sel_time ?P z500)"
    if "sel_dayofyear table ?ts = Inr fc" for fc
  proof -
    have "time fc = filter ?P (time z500)"
      using sel_dayofyear_Inr(1)[OF that] by simp
    then have "\<forall>t \<in> set (time fc). t \<in> set (time z500) \<longrightarrow> ?P t" by simp
    with l have "align fc (sel_time ?P z500) = align fc z500" by (rule align_sel_time_right)
    then show ?thesis by (rule rmse_cong_align[symmetric])
  qed
  have 1: "climatology_rmse table z500 =
           (case sel_dayofyear table ?ts of
              Inl e \<Rightarrow> Inl e
            | Inr fc \<Rightarrow> Inr (computed_weighted_rmse fc (sel_time ?P z500)))"
    using a by (simp add: climatology_rmse_def split: sum.splits)
  have 2: "time fc = ?ts \<and>
           (\<forall>i < length (time fc). \<exists>n < length (dayofyear_axis table).
               dayofyear_axis table ! n = dayofyear (time fc ! i) \<and> vals fc ! i = c_vals table ! n)"
    if "wf_climatology table" "sel_dayofyear table ?ts = Inr fc" for fc
    using sel_dayofyear_entry[OF that] sel_dayofyear_Inr(1)[OF that(2)] by simp
  from 1 2 show ?thesis by blast
qed

lemma z_small_years:
  "year 1483142400000000000 = 2016" "year 1483228800000000000 = 2017"
  "year 1483315200000000000 = 2017" "year 1514764800000000000 = 2018"
  by code_simp+

lemma z_small_doy:
  "dayofyear 1483228800000000000 = 1" "dayofyear 1483315200000000000 = 2"
  "dayofyear 1514764800000000000 = 1" "dayofyear 1483142400000000000 = 366"
  by code_simp+

lemma z_small_target:
  "sel_time (in_years test_years) z_small =
     \<lparr>time = [1483228800000000000, 1483315200000000000, 1514764800000000000],
      lat = [0, 60], lon = [0], vals = [[[3], [21]], [[3], [39]], [[1], [19]]]\<rparr>"
  by (simp add: sel_time_def in_years_def test_years_def z_small_def z_small_years)

lemma z_small_forecast:
  "sel_dayofyear table2 [1483228800000000000, 1483315200000000000, 1514764800000000000] =
     Inr \<lparr>time = [1483228800000000000, 1483315200000000000, 1514764800000000000],
      lat = [0, 60], lon = [0], vals = [[[2], [20]], [[4], [40]], [[2], [20]]]\<rparr>"
  by (simp add: sel_dayofyear_def table2_def z_small_doy)

theorem climatology_rmse_against_target_witness:
  "climatology_rmse table2 z_small = Inr (Some 1)"
proof -
  have "wf_field z_small" by (simp add: wf_field_def z_small_def)
  then have "climatology_rmse table2 z_small =
           (case sel_dayofyear table2 (time (sel_time (in_years test_years) z_small)) of
              Inl e \<Rightarrow> Inl e
            | Inr fc \<Rightarrow> Inr (computed_weighted_rmse fc (sel_time (in_years test_years) z_small)))"
    using climatology_rmse_against_target[of z_small table2] by blast
  also have "\<dots> = Inr (Some 1)"
    by (simp add: z_small_target z_small_forecast) (simp add: eval_defs cos_60)
  finally show ?thesis .
qed

section \<open>Properties of the normalised arrays\<close>

lemma expand_normalize_take:
  "expand_last (slice_until_neg k (normalize m s f)) = affine_image m s (vals (isel_until_neg k f))"
  by (simp add: expand_last_def normalize_def affine_image_def slice_until_neg_def
      isel_until_neg_def take_map comp_def)

lemma expand_normalize_drop:
  "expand_last (drop k (normalize m s f)) = affine_image m s (vals (isel_from k f))"
  by (simp add: expand_last_def normalize_def affine_image_def isel_from_def drop_map comp_def)

text \<open>
  Claim C9. The mean and the standard deviation returned by
  \<open>get_train_valid_test_dataset\<close> are those of the training slice, and each of the six
  returned arrays is the image of the raw values of its slice (training, validation or
  test, cut at the lead) under the one map \<open>x \<mapsto> (x - mean) / std\<close> of this pair,
  which is affine when \<open>std\<close> is a non-zero number; no statistic of the validation or
  test slice occurs.
\<close>

theorem normalization_by_training_statistics:
  assumes "get_train_valid_test_dataset k z = (X_train, Y_train, X_valid, Y_valid, X_test, Y_test, m, s)"
  shows "m = np_mean (cells (sel_time (in_years train_years) z)) \<and>
         s = np_std (cells (sel_time (in_years train_years) z)) \<and>
         X_train = affine_image m s (vals (isel_until_neg k (sel_time (in_years train_years) z))) \<and>
         Y_train = affine_image m s (vals (isel_from k (sel_time (in_years train_years) z))) \<and>
         X_valid = affine_image m s (vals (isel_until_neg k (sel_time (in_years valid_years) z))) \<and>
         Y_valid = affine_image m s (vals (isel_from k (sel_time (in_years valid_years) z))) \<and>
         X_test = affine_image m s (vals (isel_until_neg k (sel_time (in_years test_years) z))) \<and>
         Y_test = affine_image m s (vals (isel_from k (sel_time (in_years test_years) z))) \<and>
         (\<forall>mu sigma x. m = Some mu \<and> s = Some sigma \<and> sigma \<noteq> 0 \<longrightarrow>
             norm_cell m s x = Some (x * (1 / sigma) + (- mu / sigma)))"
proof -
  let ?tr = "sel_time (in_years train_years) z"
  let ?va = "sel_time (in_years valid_years) z"
  let ?te = "sel_time (in_years test_years) z"
  let ?m = "np_mean (cells ?tr)" and ?s = "np_std (cells ?tr)"
  have "get_train_valid_test_dataset k z =
      (expand_last (slice_until_neg k (normalize ?m ?s ?tr)),
       expand_last (drop k (normalize ?m ?s ?tr)),
       expand_last (slice_until_neg k (normalize ?m ?s ?va)),
       expand_last (drop k (normalize ?m ?s ?va)),
       expand_last (slice_until_neg k (normalize ?m ?s ?te)),
       expand_last (drop k (normalize ?m ?s ?te)), ?m, ?s)"
    unfolding get_train_valid_test_dataset_def Let_def by (rule refl)
  then have "(X_train, Y_train, X_valid, Y_valid, X_test, Y_test, m, s) =
      (expand_last (slice_until_neg k (normalize ?m ?s ?tr)),
       expand_last (drop k (normalize ?m ?s ?tr)),
       expand_last (slice_until_neg k (normalize ?m ?s ?va)),
       expand_last (drop k (normalize ?m ?s ?va)),
       expand_last (slice_until_neg k (normalize ?m ?s ?te)),
       expand_last (drop k (normalize ?m ?s ?te)), ?m, ?s)"
    using assms by (simp only:)
  then have c: "m = ?m" "s = ?s"
    "X_train = expand_last (slice_until_neg k (normalize ?m ?s ?tr))"
    "Y_train = expand_last (drop k (normalize ?m ?s ?tr))"
    "X_valid = expand_last (slice_until_neg k (normalize ?m ?s ?va))"
    "Y_valid = expand_last (drop k (normalize ?m ?s ?va))"
    "X_test = expand_last (slice_until_neg k (normalize ?m ?s ?te))"
    "Y_test = expand_last (drop k (normalize ?m ?s ?te))"
    unfolding prod.inject by blast+
  have n: "\<forall>mu sigma x. m = Some mu \<and> s = Some sigma \<and> sigma \<noteq> 0 \<longrightarrow>
             norm_cell m s x = Some (x * (1 / sigma) + (- mu / sigma))"
    by (simp add: norm_cell_def diff_divide_distrib)
  show ?thesis
    unfolding c(3-8) expand_normalize_take expand_normalize_drop
    using c(1,2) n by simp
qed

lemma z_split_years:
  "year 1420070400000000000 = 2015" "year 1420156800000000000 = 2015"
  "year 1451606400000000000 = 2016" "year 1483228800000000000 = 2017"
  "year 1514764800000000000 = 2018"
  by code_simp+

lemma z_split_slices:
  "sel_time (in_years train_years) z_split =
     \<lparr>time = [1420070400000000000, 1420156800000000000], lat = [0], lon = [0],
      vals = [[[1]], [[3]]]\<rparr>"
  "sel_time (in_years valid_years) z_split =
     \<lparr>time = [1451606400000000000], lat = [0], lon = [0], vals = [[[5]]]\<rparr>"
  "sel_time (in_years test_years) z_split =
     \<lparr>time = [1483228800000000000, 1514764800000000000], lat = [0], lon = [0],
      vals = [[[2]], [[4]]]\<rparr>"
  by (simp_all add: sel_time_def in_years_def train_years_def valid_years_def test_years_def
      z_split_def z_split_years)

lemma z_split_stats:
  "np_mean (cells (sel_time (in_years train_years) z_split)) = Some 2"
  "np_std (cells (sel_time (in_years train_years) z_split)) = Some 1"
  by (simp_all add: z_split_slices cells_def np_mean_def np_std_def)

lemma z_split_dataset:
  "get_train_valid_test_dataset 1 z_split =
     ([[[[Some (- 1)]]]], [[[[Some 1]]]], [], [], [[[[Some 0]]]], [[[[Some 2]]]], Some 2, Some 1)"
  by (simp add: get_train_valid_test_dataset_def Let_def z_split_stats)
     (simp add: z_split_slices normalize_def expand_last_def slice_until_neg_def norm_cell_def)

theorem normalization_by_training_statistics_witness:
  "get_train_valid_test_dataset 1 z_split =
     ([[[[Some (- 1)]]]], [[[[Some 1]]]], [], [], [[[[Some 0]]]], [[[[Some 2]]]], Some 2, Some 1) \<and>
   [[[[Some 0]]]] = affine_image (Some 2) (Some 1)
      (vals (isel_until_neg 1 (sel_time (in_years test_years) z_split))) \<and>
   norm_cell (Some 2) (Some 1) 5 = Some 3"
proof -
  note inst = normalization_by_training_statistics[OF z_split_dataset]
  have a: "[[[[Some 0]]]] = affine_image (Some 2) (Some 1)
      (vals (isel_until_neg 1 (sel_time (in_years test_years) z_split)))"
    using inst by (elim conjE)
  have "\<forall>mu sigma x. Some 2 = Some mu \<and> Some 1 = Some sigma \<and> sigma \<noteq> 0 \<longrightarrow>
      norm_cell (Some 2) (Some 1) x = Some (x * (1 / sigma) + (- mu / sigma))"
    using inst by (elim conjE)
  then have "norm_cell (Some 2) (Some 1) 5 = Some (5 * (1 / 1) + (- 2 / 1))"
    by (elim allE[of _ 2] allE[of _ 1] allE[of _ 5]) simp
  then have b: "norm_cell (Some 2) (Some 1) 5 = Some 3" by simp
  from z_split_dataset a b show ?thesis by (intro conjI)
qed

end
